theory Spec2Isabelle
  imports Main "HOL-Library.Sublist" "HOL-Library.AList"
begin

section \<open>Values of the host language\<close>

text \<open>
  The reader is TypeScript. A value of type \<open>string | undefined\<close> is a \<open>string option\<close>;
  a condition on such a value tests its truthiness: \<open>undefined\<close> and the empty string
  are both falsy, every other string is truthy.
\<close>

type_synonym headers = "(string \<times> string) list"

type_synonym bytes = string

definition truthy :: "string option \<Rightarrow> bool" where
  "truthy v = (case v of None \<Rightarrow> False | Some s \<Rightarrow> s \<noteq> [])"

text \<open>A template literal renders \<open>undefined\<close> as the text \<open>undefined\<close>.\<close>

definition render_opt :: "string option \<Rightarrow> string" where
  "render_opt v = (case v of None \<Rightarrow> ''undefined'' | Some s \<Rightarrow> s)"

definition render_bool :: "bool \<Rightarrow> string" where
  "render_bool b = (if b then ''true'' else ''false'')"

definition digit_char :: "nat \<Rightarrow> char" where
  "digit_char d = char_of (48 + d)"

fun render_nat :: "nat \<Rightarrow> string" where
  "render_nat n = (if n < 10 then [digit_char n] else render_nat (n div 10) @ [digit_char (n mod 10)])"

declare render_nat.simps [simp del]

subsection \<open>\<open>String.prototype.replace\<close> with a string pattern\<close>

text \<open>
  \<open>s.replace(pat, rep)\<close> with a string \<open>pat\<close> replaces the first occurrence of \<open>pat\<close> only.
  In \<open>rep\<close> the sequences \<open>$$\<close>, \<open>$&\<close>, \<open>$`\<close> and \<open>$'\<close> stand for a dollar sign, the
  matched text, the text before the match and the text after it.
\<close>

fun expand_replacement :: "string \<Rightarrow> string \<Rightarrow> string \<Rightarrow> string \<Rightarrow> string" where
  "expand_replacement [] m pre post = []"
| "expand_replacement [c] m pre post = [c]"
| "expand_replacement (c # d # r) m pre post =
     (if c = CHR ''$'' \<and> d = CHR ''$'' then CHR ''$'' # expand_replacement r m pre post
      else if c = CHR ''$'' \<and> d = CHR ''&'' then m @ expand_replacement r m pre post
      else if c = CHR ''$'' \<and> d = CHR 0x60 then pre @ expand_replacement r m pre post
      else if c = CHR ''$'' \<and> d = CHR 0x27 then post @ expand_replacement r m pre post
      else c # expand_replacement (d # r) m pre post)"

fun replace_from :: "string \<Rightarrow> string \<Rightarrow> string \<Rightarrow> string \<Rightarrow> string" where
  "replace_from pat rep pre [] =
     (if pat = [] then pre @ expand_replacement rep [] pre [] else pre)"
| "replace_from pat rep pre (c # s) =
     (if prefix pat (c # s)
      then pre @ expand_replacement rep pat pre (drop (length pat) (c # s)) @ drop (length pat) (c # s)
      else replace_from pat rep (pre @ [c]) s)"

definition replace :: "string \<Rightarrow> string \<Rightarrow> string \<Rightarrow> string" where
  "replace s pat rep = replace_from pat rep [] s"

text \<open>\<open>query.replace(/^\/+/, '')\<close>: the leading slashes are removed.\<close>

definition strip_leading_slashes :: "string \<Rightarrow> string" where
  "strip_leading_slashes q = dropWhile (\<lambda>c. c = CHR ''/'') q"

subsection \<open>Text and bytes\<close>












section \<open>Errors\<close>

text \<open>
  Every \<open>throw\<close> of the reader is a value. \<open>Error\<close> is the generic \<open>new Error(message)\<close>,
  \<open>FetchFailure\<close> the exception a failed \<open>fetch\<close> rejects with (carrying its rendering as
  text), \<open>TypeError\<close> what the runtime raises when a decoded response lacks the field
  that is read from it. \<open>ArchiveTooLarge\<close> and \<open>UnsupportedUrl\<close> belong to the tree
  materializer and to the registry.
\<close>

datatype error =
    NotFoundError string
  | NotModifiedError
  | Error string
  | FetchFailure string
  | TypeError
  | ArchiveTooLarge
  | UnsupportedUrl

section \<open>Integration config, construction and \<open>toString\<close>\<close>

record GitHubIntegrationConfig =
  host :: string
  apiBaseUrl :: "string option"
  rawBaseUrl :: "string option"
  token :: "string option"

text \<open>
  The constructor stores the config and the dependencies, and throws when neither base
  URL is truthy. The dependencies play no part in the check, so the type of the
  dependencies is a parameter here.
\<close>

record 'd GithubUrlReader =
  config :: GitHubIntegrationConfig
  deps :: 'd

definition new_GithubUrlReader :: "GitHubIntegrationConfig \<Rightarrow> 'd \<Rightarrow> error + 'd GithubUrlReader" where
  "new_GithubUrlReader c d =
     (if \<not> truthy (apiBaseUrl c) \<and> \<not> truthy (rawBaseUrl c)
      then Inl (Error (''GitHub integration for '' @ [CHR 0x27] @ host c @ [CHR 0x27] @
                       '' must configure an explicit apiBaseUrl and rawBaseUrl''))
      else Inr \<lparr>config = c, deps = d\<rparr>)"

definition toString :: "'d GithubUrlReader \<Rightarrow> string" where
  "toString r =
     ''github{host='' @ host (config r) @ '',authed='' @ render_bool (truthy (token (config r))) @ ''}''"

section \<open>The network\<close>

text \<open>
  The upstream API decides what a request is answered with; the reader only sees the
  answer. A response carries its status line and three views of its body: the bytes the
  body stream delivers (or the failure the stream ends with, which \<open>response.text()\<close>
  rejects with), the decoded JSON (\<open>response.json()\<close>) and, for an archive, the entries
  the byte stream in \<open>response.body\<close> unpacks to. The JSON documents are the four the
  reader reads fields from; any other document is \<open>OtherJson\<close>, and reading a field the
  reader needs from it raises \<open>TypeError\<close>.
\<close>

record GhRepoResponse =
  branches_url :: string
  default_branch :: string
  archive_url :: string
  trees_url :: string

record GhBranchResponse =
  commit_sha :: string

record GhTreeItem =
  item_type :: "string option"
  item_path :: "string option"
  item_url :: "string option"

record GhTreeResponse =
  truncated :: bool
  tree :: "GhTreeItem list"

record GhBlobResponse =
  blob_content :: string

datatype json =
    RepoJson GhRepoResponse
  | BranchJson GhBranchResponse
  | TreeJson GhTreeResponse
  | BlobJson GhBlobResponse
  | OtherJson

type_synonym archive = "(string \<times> bytes) list"

record response =
  status :: nat
  statusText :: string
  payload :: "string + bytes"
  json_of :: json
  body :: archive

text \<open>\<open>response.ok\<close> is true for the statuses 200 to 299.\<close>

definition ok :: "response \<Rightarrow> bool" where
  "ok r = (200 \<le> status r \<and> status r \<le> 299)"

text \<open>
  The world is the upstream (what each request is answered with: a response, or a
  transport failure with its rendering) and the log of the requests issued so far.
\<close>

record world =
  upstream :: "string \<Rightarrow> headers \<Rightarrow> string + response"
  requests :: "(string \<times> headers) list"

type_synonym 'a io = "world \<Rightarrow> (error + 'a) \<times> world"

definition returnIO :: "'a \<Rightarrow> 'a io" where
  "returnIO x w = (Inr x, w)"

definition throwIO :: "error \<Rightarrow> 'a io" where
  "throwIO e w = (Inl e, w)"

definition liftE :: "error + 'a \<Rightarrow> 'a io" where
  "liftE v w = (v, w)"

definition bindIO :: "'a io \<Rightarrow> ('a \<Rightarrow> 'b io) \<Rightarrow> 'b io" where
  "bindIO m f w = (case m w of (Inl e, w') \<Rightarrow> (Inl e, w') | (Inr x, w') \<Rightarrow> f x w')"

definition fetch :: "string \<Rightarrow> headers \<Rightarrow> world \<Rightarrow> (string + response) \<times> world" where
  "fetch u h w = (upstream w u h, w\<lparr>requests := requests w @ [(u, h)]\<rparr>)"

section \<open>Responses of the reader\<close>

text \<open>
  The four records of the source each have a field \<open>etag\<close>, and two a field \<open>files\<close>;
  record fields are constants here, so they carry a prefix.
\<close>

record ResponseFile =
  path :: string
  content :: "bytes io"

record ReadTreeOptions =
  opt_etag :: "string option"
  opt_filter :: "(string \<Rightarrow> bool) option"

record SearchOptions =
  search_opt_etag :: "string option"

record ReadTreeResponse =
  tree_etag :: string
  tree_files :: "ResponseFile list"

record SearchResponse =
  search_files :: "ResponseFile list"
  search_etag :: string

record FromTarArchiveOptions =
  tar_stream :: archive
  tar_subpath :: string
  tar_etag :: string
  tar_filter :: "(string \<Rightarrow> bool) option"

section \<open>Collaborators\<close>

text \<open>
  The reader's injected dependencies: the tree response factory and the credentials
  provider (\<open>getCredentials({url})\<close> yields the headers, or fails).
\<close>

record Deps =
  treeResponseFactory :: "FromTarArchiveOptions \<Rightarrow> error + ReadTreeResponse"
  credentialsProvider :: "string \<Rightarrow> error + headers"

text \<open>
  The library functions the module imports: \<open>git-url-parse\<close>, the file fetch URL of the
  integration package, \<open>minimatch\<close> (pattern, then path) and the base64 decoder of
  \<open>Buffer.from\<close>.
\<close>

record GitUrl =
  ref :: string
  full_name :: string
  filepath :: string

record Modules =
  parseGitUrl :: "string \<Rightarrow> error + GitUrl"
  getGitHubFileFetchUrl :: "string \<Rightarrow> GitHubIntegrationConfig \<Rightarrow> error + string"
  minimatch :: "string \<Rightarrow> string \<Rightarrow> bool"
  base64_decode :: "string \<Rightarrow> bytes"

section \<open>The reader\<close>

subsection \<open>\<open>fetchResponse\<close> and \<open>fetchJson\<close>\<close>

definition fetchResponse :: "string \<Rightarrow> headers \<Rightarrow> response io" where
  "fetchResponse u init w =
     (case fetch u init w of
        (Inl e, w') \<Rightarrow> (Inl (FetchFailure e), w')
      | (Inr r, w') \<Rightarrow>
          if \<not> ok r then
            (let message = ''Request failed for '' @ u @ '', '' @ render_nat (status r) @ '' '' @ statusText r
             in if status r = 404 then (Inl (NotFoundError message), w')
                else (Inl (Error message), w'))
          else (Inr r, w'))"

definition fetchJson :: "string \<Rightarrow> headers \<Rightarrow> json io" where
  "fetchJson u init = bindIO (fetchResponse u init) (\<lambda>r. returnIO (json_of r))"

text \<open>The typed reads of a decoded document.\<close>

definition as_repo :: "json \<Rightarrow> error + GhRepoResponse" where
  "as_repo j = (case j of RepoJson r \<Rightarrow> Inr r | _ \<Rightarrow> Inl TypeError)"

definition as_branch :: "json \<Rightarrow> error + GhBranchResponse" where
  "as_branch j = (case j of BranchJson b \<Rightarrow> Inr b | _ \<Rightarrow> Inl TypeError)"

definition as_tree :: "json \<Rightarrow> error + GhTreeResponse" where
  "as_tree j = (case j of TreeJson t \<Rightarrow> Inr t | _ \<Rightarrow> Inl TypeError)"

definition as_blob :: "json \<Rightarrow> error + GhBlobResponse" where
  "as_blob j = (case j of BlobJson b \<Rightarrow> Inr b | _ \<Rightarrow> Inl TypeError)"

subsection \<open>\<open>read\<close>\<close>


subsection \<open>\<open>getRepoDetails\<close>\<close>

definition getRepoDetails ::
  "Modules \<Rightarrow> Deps GithubUrlReader \<Rightarrow> string \<Rightarrow> (GhRepoResponse \<times> GhBranchResponse) io" where
  "getRepoDetails M r url =
     bindIO (liftE (parseGitUrl M url)) (\<lambda>parsed.
     bindIO (liftE (credentialsProvider (deps r) url)) (\<lambda>hs.
     bindIO (fetchJson (render_opt (apiBaseUrl (config r)) @ ''/repos/'' @ full_name parsed) hs) (\<lambda>j.
     bindIO (liftE (as_repo j)) (\<lambda>repo.
     bindIO (fetchJson
               (replace (branches_url repo) ''{/branch}''
                  (''/'' @ (if ref parsed \<noteq> [] then ref parsed else default_branch repo))) hs) (\<lambda>j'.
     bindIO (liftE (as_branch j')) (\<lambda>branch.
     returnIO (repo, branch)))))))"

subsection \<open>\<open>doReadTree\<close> and \<open>readTree\<close>\<close>

definition option_filter :: "ReadTreeOptions option \<Rightarrow> (string \<Rightarrow> bool) option" where
  "option_filter options = (case options of None \<Rightarrow> None | Some opts \<Rightarrow> opt_filter opts)"

definition option_etag :: "ReadTreeOptions option \<Rightarrow> string option" where
  "option_etag options = (case options of None \<Rightarrow> None | Some opts \<Rightarrow> opt_etag opts)"

definition doReadTree ::
  "Deps GithubUrlReader \<Rightarrow> string \<Rightarrow> string \<Rightarrow> string \<Rightarrow> headers \<Rightarrow> ReadTreeOptions option
     \<Rightarrow> ReadTreeResponse io" where
  "doReadTree r archiveUrl sha subpath init options =
     bindIO (fetchResponse
               (replace (replace archiveUrl ''{archive_format}'' ''tarball'') ''{/ref}'' (''/'' @ sha))
               init) (\<lambda>archive.
     liftE (treeResponseFactory (deps r)
              \<lparr>tar_stream = body archive, tar_subpath = subpath, tar_etag = sha,
               tar_filter = option_filter options\<rparr>))"

definition readTree ::
  "Modules \<Rightarrow> Deps GithubUrlReader \<Rightarrow> string \<Rightarrow> ReadTreeOptions option \<Rightarrow> ReadTreeResponse io" where
  "readTree M r url options =
     bindIO (getRepoDetails M r url) (\<lambda>(repo, branch).
       let commitSha = commit_sha branch in
       if truthy (option_etag options) \<and> option_etag options = Some commitSha
       then throwIO NotModifiedError
       else
         bindIO (liftE (parseGitUrl M url)) (\<lambda>parsed.
         bindIO (liftE (credentialsProvider (deps r) url)) (\<lambda>hs.
         doReadTree r (archive_url repo) commitSha (filepath parsed) hs options)))"

subsection \<open>\<open>doSearch\<close> and \<open>search\<close>\<close>

definition blob_accessor :: "Modules \<Rightarrow> string \<Rightarrow> headers \<Rightarrow> bytes io" where
  "blob_accessor M u init =
     bindIO (fetchJson u init) (\<lambda>j.
     bindIO (liftE (as_blob j)) (\<lambda>blob.
     returnIO (base64_decode M (blob_content blob))))"

definition matching_item :: "(string \<Rightarrow> bool) \<Rightarrow> GhTreeItem \<Rightarrow> bool" where
  "matching_item matcher item =
     (item_type item = Some ''blob'' \<and> truthy (item_path item) \<and> truthy (item_url item) \<and>
      matcher (the (item_path item)))"

definition doSearch ::
  "Modules \<Rightarrow> Deps GithubUrlReader \<Rightarrow> string \<Rightarrow> string \<Rightarrow> string \<Rightarrow> string \<Rightarrow> headers
     \<Rightarrow> ResponseFile list io" where
  "doSearch M r treesUrl archiveUrl sha query init =
     (let matcher = minimatch M (strip_leading_slashes query) in
      bindIO (fetchJson (replace treesUrl ''{/sha}'' (''/'' @ sha @ ''?recursive=true'')) init) (\<lambda>j.
      bindIO (liftE (as_tree j)) (\<lambda>recursiveTree.
        if \<not> truncated recursiveTree then
          returnIO
            (map (\<lambda>item. \<lparr>path = the (item_path item),
                          content = blob_accessor M (the (item_url item)) init\<rparr>)
               (filter (matching_item matcher) (tree recursiveTree)))
        else
          bindIO (doReadTree r archiveUrl sha [] init
                    (Some \<lparr>opt_etag = None, opt_filter = Some matcher\<rparr>)) (\<lambda>t.
          returnIO (tree_files t)))))"

definition search_option_etag :: "SearchOptions option \<Rightarrow> string option" where
  "search_option_etag options = (case options of None \<Rightarrow> None | Some opts \<Rightarrow> search_opt_etag opts)"

definition search ::
  "Modules \<Rightarrow> Deps GithubUrlReader \<Rightarrow> string \<Rightarrow> SearchOptions option \<Rightarrow> SearchResponse io" where
  "search M r url options =
     bindIO (getRepoDetails M r url) (\<lambda>(repo, branch).
       let commitSha = commit_sha branch in
       if truthy (search_option_etag options) \<and> search_option_etag options = Some commitSha
       then throwIO NotModifiedError
       else
         bindIO (liftE (parseGitUrl M url)) (\<lambda>parsed.
         bindIO (liftE (credentialsProvider (deps r) url)) (\<lambda>hs.
         bindIO (doSearch M r (trees_url repo) (archive_url repo) commitSha (filepath parsed) hs) (\<lambda>files.
         returnIO \<lparr>search_files = files, search_etag = commitSha\<rparr>))))"

section \<open>Integrations by host\<close>

text \<open>
  A parsed URL, as far as the lookups read it. \<open>url.hostname\<close> is the name alone;
  \<open>url.host\<close> is the name followed by a colon and the port when the URL has a port
  that is not the default of its scheme.
\<close>

record URL =
  hostname :: string
  port :: string

definition url_host :: "URL \<Rightarrow> string" where
  "url_host u = (if port u = [] then hostname u else hostname u @ '':'' @ port u)"

text \<open>
  \<open>basicIntegrations(integrations, getHost)\<close> of \<open>helpers.ts\<close>. \<open>byUrl\<close> takes a string or
  a URL; \<open>new URL\<close> is the platform's parser, which throws on a string that is no URL.
\<close>

definition list_integrations :: "'t list \<Rightarrow> ('t \<Rightarrow> string) \<Rightarrow> 't list" where
  "list_integrations integrations getHost = integrations"

definition byHost :: "'t list \<Rightarrow> ('t \<Rightarrow> string) \<Rightarrow> string \<Rightarrow> 't option" where
  "byHost integrations getHost h = find (\<lambda>i. getHost i = h) integrations"

definition byUrl ::
  "(string \<Rightarrow> URL option) \<Rightarrow> 't list \<Rightarrow> ('t \<Rightarrow> string) \<Rightarrow> string + URL \<Rightarrow> error + 't option" where
  "byUrl new_URL integrations getHost url =
     (case (case url of Inl s \<Rightarrow> new_URL s | Inr u \<Rightarrow> Some u) of
        None \<Rightarrow> Inl TypeError
      | Some parsed \<Rightarrow> Inr (find (\<lambda>i. getHost i = hostname parsed) integrations))"

text \<open>
  \<open>GithubUrlReader.factory\<close>: one reader and one predicate for each config, in order;
  a constructor that throws ends the whole call. The configs are what
  \<open>readGitHubIntegrationConfigs\<close> returned, \<open>create\<close> is \<open>GithubCredentialsProvider.create\<close>.
\<close>

fun factory ::
  "(GitHubIntegrationConfig \<Rightarrow> string \<Rightarrow> error + headers)
     \<Rightarrow> (FromTarArchiveOptions \<Rightarrow> error + ReadTreeResponse)
     \<Rightarrow> GitHubIntegrationConfig list
     \<Rightarrow> error + (Deps GithubUrlReader \<times> (URL \<Rightarrow> bool)) list" where
  "factory create trf [] = Inr []"
| "factory create trf (provider # rest) =
     (case new_GithubUrlReader provider
             \<lparr>treeResponseFactory = trf, credentialsProvider = create provider\<rparr> of
        Inl e \<Rightarrow> Inl e
      | Inr reader \<Rightarrow>
          (case factory create trf rest of
             Inl e \<Rightarrow> Inl e
           | Inr items \<Rightarrow> Inr ((reader, \<lambda>url. url_host url = host provider) # items)))"

text \<open>
  Modelled from the spec: the Registry, whose source is not among the files at hand.
  It holds the (reader, predicate) pairs in configuration order and dispatches a URL to
  the first pair whose predicate holds; when none holds it signals \<open>UnsupportedUrl\<close>.
\<close>

definition resolve :: "('r \<times> (URL \<Rightarrow> bool)) list \<Rightarrow> URL \<Rightarrow> error + 'r" where
  "resolve items url =
     (case find (\<lambda>item. snd item url) items of
        None \<Rightarrow> Inl UnsupportedUrl
      | Some item \<Rightarrow> Inr (fst item))"

section \<open>The tree materializer\<close>

text \<open>
  Modelled from the spec: the tree response factory (\<open>fromTarArchive\<close>), whose source is
  not among the files at hand. It takes the unpacked entries, a subpath, a filter and
  the etag to stamp on the result. Every entry under the subpath whose path, relative to
  the subpath, passes the filter becomes a Response File whose accessor yields the
  entry's bytes; the result carries the etag. When the extracted bytes exceed the
  configured limit it fails with \<open>ArchiveTooLarge\<close>.
\<close>

definition relative_to :: "string \<Rightarrow> string \<Rightarrow> string option" where
  "relative_to sub p =
     (if sub = [] then Some p
      else if prefix (sub @ ''/'') p then Some (drop (length sub + 1) p)
      else None)"

definition passes :: "(string \<Rightarrow> bool) option \<Rightarrow> string \<Rightarrow> bool" where
  "passes flt p = (case flt of None \<Rightarrow> True | Some f \<Rightarrow> f p)"

definition extracted :: "FromTarArchiveOptions \<Rightarrow> archive" where
  "extracted opts =
     List.map_filter
       (\<lambda>entry. case relative_to (tar_subpath opts) (fst entry) of
                  None \<Rightarrow> None
                | Some rel \<Rightarrow> if passes (tar_filter opts) rel then Some (rel, snd entry) else None)
       (tar_stream opts)"

definition entry_file :: "string \<times> bytes \<Rightarrow> ResponseFile" where
  "entry_file entry = \<lparr>path = fst entry, content = returnIO (snd entry)\<rparr>"

definition fromTarArchive :: "nat \<Rightarrow> FromTarArchiveOptions \<Rightarrow> error + ReadTreeResponse" where
  "fromTarArchive maxSize opts =
     (if maxSize < sum_list (map (\<lambda>entry. length (snd entry)) (extracted opts))
      then Inl ArchiveTooLarge
      else Inr \<lparr>tree_etag = tar_etag opts, tree_files = map entry_file (extracted opts)\<rparr>)"



section \<open>A concrete installation\<close>

text \<open>
  One GitHub Enterprise integration, the repository \<open>acme/widgets\<close> on branch \<open>main\<close>,
  and an upstream that answers the five endpoints of that repository and nothing else.
  The upstream is a function of the commit id of \<open>main\<close>, of the tree listing and of the
  entries of the archive, so that the same installation serves every example below.
\<close>

definition tree_url :: string where
  "tree_url = ''https://ghe.test/acme/widgets/tree/main''"

definition search_url :: string where
  "search_url = ''https://ghe.test/acme/widgets/blob/main/*.md''"

definition example_modules :: Modules where
  "example_modules =
     \<lparr>parseGitUrl = (\<lambda>u.
        if u = tree_url then Inr \<lparr>ref = ''main'', full_name = ''acme/widgets'', filepath = []\<rparr>
        else if u = search_url then Inr \<lparr>ref = ''main'', full_name = ''acme/widgets'', filepath = ''*.md''\<rparr>
        else Inl (Error ''URL parsing failed.'')),
      getGitHubFileFetchUrl = (\<lambda>u c.
        if u = ''https://ghe.test/acme/widgets/blob/main/logo.png''
        then Inr (render_opt (apiBaseUrl c) @ ''/repos/acme/widgets/contents/logo.png?ref=main'')
        else Inr (render_opt (apiBaseUrl c) @ ''/repos/acme/widgets/contents/README.md?ref=main'')),
      minimatch = (\<lambda>pat p. pat = ''*.md'' \<and> suffix ''.md'' p \<and> CHR ''/'' \<notin> set p),
      base64_decode = (\<lambda>s. if s = ''aGk='' then ''hi'' else [])\<rparr>"

definition example_config :: GitHubIntegrationConfig where
  "example_config =
     \<lparr>host = ''ghe.test'', apiBaseUrl = Some ''https://ghe.test/api/v3'', rawBaseUrl = None,
      token = Some ''secret''\<rparr>"

definition example_headers :: headers where
  "example_headers = [(''Authorization'', ''token secret'')]"

definition example_reader :: "Deps GithubUrlReader" where
  "example_reader =
     \<lparr>config = example_config,
      deps = \<lparr>treeResponseFactory = fromTarArchive 1000,
              credentialsProvider = (\<lambda>u. Inr example_headers)\<rparr>\<rparr>"

definition example_repo :: GhRepoResponse where
  "example_repo =
     \<lparr>branches_url = ''https://ghe.test/api/v3/repos/acme/widgets/branches{/branch}'',
      default_branch = ''main'',
      archive_url = ''https://ghe.test/api/v3/repos/acme/widgets/{archive_format}{/ref}'',
      trees_url = ''https://ghe.test/api/v3/repos/acme/widgets/git/trees{/sha}''\<rparr>"

text \<open>The first bytes of every PNG file: 89 50 4E 47 0D 0A 1A 0A.\<close>

definition png_signature :: bytes where
  "png_signature = [CHR 0x89, CHR 0x50, CHR 0x4E, CHR 0x47, CHR 0x0D, CHR 0x0A, CHR 0x1A, CHR 0x0A]"

definition ok_response :: "string \<Rightarrow> json \<Rightarrow> archive \<Rightarrow> string + response" where
  "ok_response t j entries =
     Inr \<lparr>status = 200, statusText = ''OK'', payload = Inr t, json_of = j, body = entries\<rparr>"

definition example_upstream ::
  "string \<Rightarrow> GhTreeResponse \<Rightarrow> archive \<Rightarrow> string \<Rightarrow> headers \<Rightarrow> string + response" where
  "example_upstream sha listing entries u h =
     (if u = ''https://ghe.test/api/v3/repos/acme/widgets''
        then ok_response [] (RepoJson example_repo) []
      else if u = ''https://ghe.test/api/v3/repos/acme/widgets/branches/main''
        then ok_response [] (BranchJson \<lparr>commit_sha = sha\<rparr>) []
      else if u = ''https://ghe.test/api/v3/repos/acme/widgets/git/trees/'' @ sha @ ''?recursive=true''
        then ok_response [] (TreeJson listing) []
      else if u = ''https://ghe.test/api/v3/repos/acme/widgets/tarball/'' @ sha
        then ok_response [] OtherJson entries
      else if u = ''https://ghe.test/api/v3/repos/acme/widgets/git/blobs/1''
        then ok_response [] (BlobJson \<lparr>blob_content = ''aGk=''\<rparr>) []
      else if u = ''https://ghe.test/api/v3/repos/acme/widgets/contents/README.md?ref=main''
        then ok_response ''hi'' OtherJson []
      else if u = ''https://ghe.test/api/v3/repos/acme/widgets/contents/logo.png?ref=main''
        then ok_response png_signature OtherJson []
      else Inr \<lparr>status = 404, statusText = ''Not Found'', payload = Inr [], json_of = OtherJson, body = []\<rparr>)"

definition example_world :: "string \<Rightarrow> GhTreeResponse \<Rightarrow> archive \<Rightarrow> world" where
  "example_world sha listing entries =
     \<lparr>upstream = example_upstream sha listing entries, requests = []\<rparr>"

definition readme_item :: "string option \<Rightarrow> GhTreeItem" where
  "readme_item u = \<lparr>item_type = Some ''blob'', item_path = Some ''README.md'', item_url = u\<rparr>"

definition readme_blob_url :: string where
  "readme_blob_url = ''https://ghe.test/api/v3/repos/acme/widgets/git/blobs/1''"

definition example_URL :: "string \<Rightarrow> URL" where
  "example_URL p = \<lparr>hostname = ''ghe.test'', port = p\<rparr>"

definition example_new_URL :: "string \<Rightarrow> URL option" where
  "example_new_URL s =
     (if s = tree_url \<or> s = search_url then Some (example_URL [])
      else if s = ''https://ghe.test:8443/acme/widgets/tree/main'' then Some (example_URL ''8443'')
      else None)"

definition example_create :: "GitHubIntegrationConfig \<Rightarrow> string \<Rightarrow> error + headers" where
  "example_create c u = Inr (case token c of None \<Rightarrow> [] | Some t \<Rightarrow> [(''Authorization'', ''token '' @ t)])"

definition public_config :: GitHubIntegrationConfig where
  "public_config =
     \<lparr>host = ''github.com'', apiBaseUrl = Some ''https://api.github.com'',
      rawBaseUrl = Some ''https://raw.githubusercontent.com'', token = None\<rparr>"

definition example_items :: "(Deps GithubUrlReader \<times> (URL \<Rightarrow> bool)) list" where
  "example_items =
     [(\<lparr>config = public_config,
        deps = \<lparr>treeResponseFactory = fromTarArchive 1000,
                credentialsProvider = example_create public_config\<rparr>\<rparr>,
       \<lambda>url. url_host url = host public_config),
      (\<lparr>config = example_config,
        deps = \<lparr>treeResponseFactory = fromTarArchive 1000,
                credentialsProvider = example_create example_config\<rparr>\<rparr>,
       \<lambda>url. url_host url = host example_config)]"

section \<open>The requests that resolve a commit\<close>

text \<open>The URLs of the two metadata requests of \<open>getRepoDetails\<close>, named for the statements below.\<close>

definition repo_request :: "Deps GithubUrlReader \<Rightarrow> GitUrl \<Rightarrow> string" where
  "repo_request r parsed = render_opt (apiBaseUrl (config r)) @ ''/repos/'' @ full_name parsed"

definition branch_request :: "GhRepoResponse \<Rightarrow> GitUrl \<Rightarrow> string" where
  "branch_request repo parsed =
     replace (branches_url repo) ''{/branch}''
       (''/'' @ (if ref parsed \<noteq> [] then ref parsed else default_branch repo))"

definition tree_request :: "string \<Rightarrow> string \<Rightarrow> string" where
  "tree_request treesUrl sha = replace treesUrl ''{/sha}'' (''/'' @ sha @ ''?recursive=true'')"






section \<open>Construction\<close>

lemma truthy_simps [simp]: "truthy None = False" "truthy (Some s) = (s \<noteq> [])"
  by (simp_all add: truthy_def)

text \<open>
  C6 (as amended). Constructing a reader fails if and only if each of the two base URLs
  is absent or the empty string; a config in which one of them is a non-empty string is
  accepted.
\<close>

theorem constructor_rejects_iff_no_base_url:
  "(\<exists>e. new_GithubUrlReader c d = Inl e) \<longleftrightarrow>
     (apiBaseUrl c = None \<or> apiBaseUrl c = Some []) \<and> (rawBaseUrl c = None \<or> rawBaseUrl c = Some [])"
  by (cases "apiBaseUrl c"; cases "rawBaseUrl c") (auto simp: new_GithubUrlReader_def)

text \<open>
  C6 as stated fails: a config whose API base URL is present, but empty, is rejected
  although not both base URLs are absent.
\<close>

theorem constructor_rejects_empty_base_url:
  "apiBaseUrl (example_config\<lparr>apiBaseUrl := Some []\<rparr>) \<noteq> None \<and>
   new_GithubUrlReader (example_config\<lparr>apiBaseUrl := Some []\<rparr>) () =
     Inl (Error (''GitHub integration for '' @ [CHR 0x27] @ ''ghe.test'' @ [CHR 0x27] @
                 '' must configure an explicit apiBaseUrl and rawBaseUrl''))"
  by (simp add: new_GithubUrlReader_def example_config_def)

section \<open>\<open>toString\<close>\<close>

text \<open>
  C10 (as amended). Two readers whose configs share the host and agree on whether the
  token is truthy (present and not empty) have the same \<open>toString\<close> output, whatever the
  tokens are: the output is a function of the host and of \<open>Boolean(token)\<close> only.
\<close>

theorem toString_depends_on_host_and_authed:
  "host (config r1) = host (config r2) \<Longrightarrow>
   truthy (token (config r1)) = truthy (token (config r2)) \<Longrightarrow>
   toString r1 = toString r2"
  by (simp add: toString_def)

theorem toString_depends_on_host_and_authed_witness:
  "toString \<lparr>config = example_config\<lparr>token := Some ''abc''\<rparr>, deps = ()\<rparr> =
   toString \<lparr>config = example_config\<lparr>token := Some ''xyz'', rawBaseUrl := Some ''https://ghe.test/raw''\<rparr>, deps = ()\<rparr>"
  using toString_depends_on_host_and_authed
    [of "\<lparr>config = example_config\<lparr>token := Some ''abc''\<rparr>, deps = ()\<rparr>"
        "\<lparr>config = example_config\<lparr>token := Some ''xyz'', rawBaseUrl := Some ''https://ghe.test/raw''\<rparr>, deps = ()\<rparr>"]
  by simp

text \<open>
  C10 as stated fails twice. Two configs with the same host that both have a token, one
  of them the empty string, give different outputs; and the output of a config whose
  token is \<open>true\<close> contains that token.
\<close>

theorem toString_empty_token_differs:
  "token (example_config\<lparr>token := Some []\<rparr>) \<noteq> None \<and>
   token (example_config\<lparr>token := Some ''abc''\<rparr>) \<noteq> None \<and>
   host (example_config\<lparr>token := Some []\<rparr>) = host (example_config\<lparr>token := Some ''abc''\<rparr>) \<and>
   toString \<lparr>config = example_config\<lparr>token := Some []\<rparr>, deps = ()\<rparr> =
     ''github{host=ghe.test,authed=false}'' \<and>
   toString \<lparr>config = example_config\<lparr>token := Some ''abc''\<rparr>, deps = ()\<rparr> =
     ''github{host=ghe.test,authed=true}'' \<and>
   suffix (''true'' @ ''}'') (toString \<lparr>config = example_config\<lparr>token := Some ''true''\<rparr>, deps = ()\<rparr>)"
  by (simp add: toString_def render_bool_def example_config_def suffix_def)

section \<open>Lookup by host\<close>

text \<open>
  C8. For a valid URL, \<open>byUrl\<close> returns what \<open>byHost\<close> returns for the URL's hostname,
  whether the URL is given as a string or parsed; that is the first integration in list
  order whose host is the hostname, and \<open>undefined\<close> exactly when there is none.
\<close>

theorem byUrl_is_byHost_of_hostname:
  "new_URL s = Some u \<Longrightarrow>
     byUrl new_URL integrations getHost (Inl s) = Inr (byHost integrations getHost (hostname u)) \<and>
     byUrl new_URL integrations getHost (Inr u) = Inr (byHost integrations getHost (hostname u)) \<and>
     (\<forall>i. byHost integrations getHost (hostname u) = Some i \<longleftrightarrow>
        (\<exists>k < length integrations. integrations ! k = i \<and> getHost i = hostname u \<and>
           (\<forall>j < k. getHost (integrations ! j) \<noteq> hostname u))) \<and>
     (byHost integrations getHost (hostname u) = None \<longleftrightarrow>
        (\<forall>i \<in> set integrations. getHost i \<noteq> hostname u))"
  by (auto simp: byUrl_def byHost_def find_Some_iff find_None_iff)

theorem byUrl_is_byHost_of_hostname_witness:
  "example_new_URL tree_url = Some (example_URL []) \<and>
   byUrl example_new_URL [public_config, example_config, example_config\<lparr>token := None\<rparr>] host (Inl tree_url) =
     Inr (Some example_config) \<and>
   byHost [public_config, example_config, example_config\<lparr>token := None\<rparr>] host ''ghe.test'' =
     Some example_config"
proof -
  have valid: "example_new_URL tree_url = Some (example_URL [])"
    by (simp add: example_new_URL_def)
  have "byHost [public_config, example_config, example_config\<lparr>token := None\<rparr>] host ''ghe.test'' =
     Some example_config"
    by (simp add: byHost_def public_config_def example_config_def)
  with valid byUrl_is_byHost_of_hostname [of example_new_URL tree_url "example_URL []"
      "[public_config, example_config, example_config\<lparr>token := None\<rparr>]" host]
  show ?thesis
    by (simp add: example_URL_def)
qed

section \<open>The registry\<close>

lemma factory_items:
  "factory create trf configs = Inr items \<Longrightarrow>
   items = map (\<lambda>c. (\<lparr>config = c, deps = \<lparr>treeResponseFactory = trf, credentialsProvider = create c\<rparr>\<rparr>,
                     \<lambda>url. url_host url = host c)) configs"
proof (induction configs arbitrary: items)
  case Nil
  then show ?case by simp
next
  case (Cons c cs)
  then show ?case
    by (auto simp: new_GithubUrlReader_def split: sum.splits if_splits)
qed

lemma find_map_comp: "find P (map f xs) = map_option f (find (P \<circ> f) xs)"
  by (induction xs) auto

lemma resolve_factory:
  assumes "factory create trf configs = Inr items"
  shows "resolve items u =
     (case find (\<lambda>c. host c = url_host u) configs of
        None \<Rightarrow> Inl UnsupportedUrl
      | Some c \<Rightarrow> Inr \<lparr>config = c, deps = \<lparr>treeResponseFactory = trf, credentialsProvider = create c\<rparr>\<rparr>)"
proof -
  have flip: "(\<lambda>c. url_host u = host c) = (\<lambda>c. host c = url_host u)"
    by auto
  show ?thesis
    unfolding factory_items [OF assms] resolve_def find_map_comp
    by (cases "find (\<lambda>c. host c = url_host u) configs") (simp_all add: comp_def flip)
qed

lemma find_distinct_host:
  "distinct (map h xs) \<Longrightarrow> c \<in> set xs \<Longrightarrow> find (\<lambda>x. h x = h c) xs = Some c"
  by (induction xs) (auto simp: image_iff)

text \<open>
  C3 (as amended). For integrations with distinct hosts whose readers were all
  constructed: the factory yields one reader for each integration, in order, and the
  predicate of each holds exactly for the URLs whose \<open>url.host\<close> (the hostname, with the
  port when the URL has one) equals the integration's host. So the registry resolves a
  URL to the reader of the integration whose host equals \<open>url.host\<close>, and signals
  \<open>UnsupportedUrl\<close> when no configured host equals \<open>url.host\<close>. The lookup \<open>byUrl\<close> of the
  helpers compares with \<open>url.hostname\<close>; for every URL without a port it selects the
  integration of the first reader whose predicate holds.
\<close>

theorem resolve_selects_by_url_host:
  assumes "distinct (map host configs)"
    and "factory create trf configs = Inr items"
  shows "map (\<lambda>item. config (fst item)) items = configs \<and>
         (\<forall>item \<in> set items. snd item u \<longleftrightarrow> host (config (fst item)) = url_host u) \<and>
         (\<forall>c \<in> set configs. host c = url_host u \<longrightarrow>
            resolve items u =
              Inr \<lparr>config = c, deps = \<lparr>treeResponseFactory = trf, credentialsProvider = create c\<rparr>\<rparr>) \<and>
         ((\<forall>c \<in> set configs. host c \<noteq> url_host u) \<longrightarrow> resolve items u = Inl UnsupportedUrl) \<and>
         (port u = [] \<longrightarrow>
            byUrl new_URL configs host (Inr u) =
              Inr (map_option (\<lambda>item. config (fst item)) (find (\<lambda>item. snd item u) items)))"
proof (intro conjI ballI impI)
  show "map (\<lambda>item. config (fst item)) items = configs"
    unfolding factory_items [OF assms(2)] by (simp add: comp_def)
next
  fix item assume "item \<in> set items"
  then show "snd item u \<longleftrightarrow> host (config (fst item)) = url_host u"
    unfolding factory_items [OF assms(2)] by auto
next
  fix c assume "c \<in> set configs" "host c = url_host u"
  with find_distinct_host [OF assms(1), of c] show "resolve items u =
     Inr \<lparr>config = c, deps = \<lparr>treeResponseFactory = trf, credentialsProvider = create c\<rparr>\<rparr>"
    by (simp add: resolve_factory [OF assms(2)])
next
  assume "\<forall>c \<in> set configs. host c \<noteq> url_host u"
  then have "find (\<lambda>c. host c = url_host u) configs = None"
    by (simp add: find_None_iff)
  then show "resolve items u = Inl UnsupportedUrl"
    by (simp add: resolve_factory [OF assms(2)])
next
  assume p: "port u = []"
  have flip: "(\<lambda>c. url_host u = host c) = (\<lambda>c. host c = url_host u)"
    by auto
  have "find (\<lambda>item. snd item u) items =
      map_option (\<lambda>c. (\<lparr>config = c, deps = \<lparr>treeResponseFactory = trf, credentialsProvider = create c\<rparr>\<rparr>,
                         \<lambda>url. url_host url = host c))
        (find (\<lambda>c. host c = url_host u) configs)"
    unfolding factory_items [OF assms(2)] find_map_comp by (simp add: comp_def flip)
  with p show "byUrl new_URL configs host (Inr u) =
              Inr (map_option (\<lambda>item. config (fst item)) (find (\<lambda>item. snd item u) items))"
    by (simp add: byUrl_def url_host_def option.map_comp comp_def option.map_ident)
qed

lemma example_hosts:
  "host public_config = ''github.com''" "host example_config = ''ghe.test''"
  by (simp_all add: public_config_def example_config_def)

lemma example_factory:
  "factory example_create (fromTarArchive 1000) [public_config, example_config] = Inr example_items"
  by (simp add: new_GithubUrlReader_def public_config_def example_config_def example_items_def)

theorem resolve_selects_by_url_host_witness:
  "distinct (map host [public_config, example_config]) \<and>
   factory example_create (fromTarArchive 1000) [public_config, example_config] = Inr example_items \<and>
   resolve example_items (example_URL []) =
     Inr \<lparr>config = example_config,
          deps = \<lparr>treeResponseFactory = fromTarArchive 1000,
                  credentialsProvider = example_create example_config\<rparr>\<rparr> \<and>
   resolve example_items \<lparr>hostname = ''gitlab.com'', port = []\<rparr> = Inl UnsupportedUrl \<and>
   byUrl example_new_URL [public_config, example_config] host (Inr (example_URL [])) =
     Inr (Some example_config)"
proof -
  have d: "distinct (map host [public_config, example_config])"
    by (simp add: example_hosts)
  note th = resolve_selects_by_url_host [OF d example_factory]
  have a: "resolve example_items (example_URL []) =
        Inr \<lparr>config = example_config,
             deps = \<lparr>treeResponseFactory = fromTarArchive 1000,
                     credentialsProvider = example_create example_config\<rparr>\<rparr>"
    using th [of "example_URL []" example_new_URL]
    by (simp add: example_URL_def url_host_def example_hosts)
  have b: "resolve example_items \<lparr>hostname = ''gitlab.com'', port = []\<rparr> = Inl UnsupportedUrl"
    using th [of "\<lparr>hostname = ''gitlab.com'', port = []\<rparr>" example_new_URL]
    by (simp add: url_host_def example_hosts)
  have c: "byUrl example_new_URL [public_config, example_config] host (Inr (example_URL [])) =
        Inr (Some example_config)"
  proof -
    have "find (\<lambda>item. snd item (example_URL [])) example_items = Some (example_items ! 1)"
      by (simp add: example_items_def example_URL_def url_host_def example_hosts)
    with th [of "example_URL []" example_new_URL] show ?thesis
      by (simp add: example_URL_def example_items_def)
  qed
  from d a b c example_factory show ?thesis
    by blast
qed

text \<open>
  C3 as stated fails where it says that the registry predicate and \<open>byUrl\<close> agree: for
  the URL \<open>https://ghe.test:8443/acme/widgets/tree/main\<close> the registry finds no reader,
  since \<open>url.host\<close> is \<open>ghe.test:8443\<close>, while \<open>byUrl\<close> finds the integration of host
  \<open>ghe.test\<close>, since \<open>url.hostname\<close> is \<open>ghe.test\<close>.
\<close>

theorem registry_and_byUrl_disagree_on_port:
  "factory example_create (fromTarArchive 1000) [public_config, example_config] = Inr example_items \<and>
   example_new_URL ''https://ghe.test:8443/acme/widgets/tree/main'' = Some (example_URL ''8443'') \<and>
   resolve example_items (example_URL ''8443'') = Inl UnsupportedUrl \<and>
   byUrl example_new_URL [public_config, example_config] host
     (Inl ''https://ghe.test:8443/acme/widgets/tree/main'') = Inr (Some example_config)"
proof -
  have a: "example_new_URL ''https://ghe.test:8443/acme/widgets/tree/main'' = Some (example_URL ''8443'')"
    by (simp add: example_new_URL_def tree_url_def search_url_def)
  have b: "resolve example_items (example_URL ''8443'') = Inl UnsupportedUrl"
    by (simp add: example_items_def resolve_def example_URL_def url_host_def example_hosts)
  have c: "byUrl example_new_URL [public_config, example_config] host
     (Inl ''https://ghe.test:8443/acme/widgets/tree/main'') = Inr (Some example_config)"
    by (simp add: a byUrl_def example_URL_def example_hosts)
  from a b c example_factory show ?thesis
    by blast
qed

section \<open>Sequencing\<close>

lemma bindIO_liftE [simp]:
  "bindIO (liftE (Inr x)) f w = f x w"
  "bindIO (liftE (Inl e)) f w = (Inl e, w)"
  by (simp_all add: bindIO_def liftE_def)

lemma bindIO_returnIO [simp]: "bindIO (returnIO x) f w = f x w"
  by (simp add: bindIO_def returnIO_def)

lemma bindIO_InrE:
  assumes "bindIO m f w = (Inr y, w')"
  obtains x w1 where "m w = (Inr x, w1)" and "f x w1 = (Inr y, w')"
  using assms by (auto simp: bindIO_def split: prod.splits sum.splits)

lemma liftE_eq [simp]: "liftE v w = (x, w') \<longleftrightarrow> v = x \<and> w' = w"
  by (auto simp: liftE_def)

lemma returnIO_eq [simp]: "returnIO x w = (y, w') \<longleftrightarrow> y = Inr x \<and> w' = w"
  by (auto simp: returnIO_def)

lemma throwIO_eq [simp]: "throwIO e w = (y, w') \<longleftrightarrow> y = Inl e \<and> w' = w"
  by (auto simp: throwIO_def)

lemma fetchResponse_world:
  "snd (fetchResponse u init w) = w\<lparr>requests := requests w @ [(u, init)]\<rparr>"
  by (simp add: fetchResponse_def fetch_def Let_def split: sum.splits)

lemma fetchJson_world:
  "snd (fetchJson u init w) = w\<lparr>requests := requests w @ [(u, init)]\<rparr>"
  using fetchResponse_world [of u init w]
  by (cases "fetchResponse u init w") (auto simp: fetchJson_def bindIO_def returnIO_def split: sum.splits)

lemma fetchJson_ok:
  "upstream w u init = Inr resp \<Longrightarrow> ok resp \<Longrightarrow>
   fetchJson u init w = (Inr (json_of resp), w\<lparr>requests := requests w @ [(u, init)]\<rparr>)"
  by (simp add: fetchJson_def fetchResponse_def fetch_def bindIO_def returnIO_def)


section \<open>Resolving the commit\<close>

lemma fetchJson_worldD:
  "fetchJson u init w = (x, w') \<Longrightarrow> w' = w\<lparr>requests := requests w @ [(u, init)]\<rparr>"
  using fetchJson_world [of u init w] by simp

lemma getRepoDetails_success:
  assumes "getRepoDetails M r url w = (Inr (repo, branch), w')"
  shows "\<exists>parsed hs. parseGitUrl M url = Inr parsed \<and> credentialsProvider (deps r) url = Inr hs \<and>
           w' = w\<lparr>requests := requests w @ [(repo_request r parsed, hs), (branch_request repo parsed, hs)]\<rparr>"
  using assms unfolding getRepoDetails_def
  apply (elim bindIO_InrE)
  apply (auto dest!: fetchJson_worldD simp: repo_request_def branch_request_def)
  done


section \<open>Decoding what was encoded\<close>




















section \<open>\<open>read\<close>\<close>


lemmas example_defs =
  example_modules_def example_reader_def example_config_def example_headers_def
  example_world_def example_upstream_def example_repo_def ok_response_def
  tree_url_def search_url_def

lemmas reader_defs =
  readTree_def search_def getRepoDetails_def doReadTree_def doSearch_def
  fetchJson_def fetchResponse_def fetch_def bindIO_def liftE_def returnIO_def throwIO_def
  ok_def as_repo_def as_branch_def as_tree_def as_blob_def render_opt_def replace_def
  option_etag_def option_filter_def search_option_etag_def
  fromTarArchive_def extracted_def relative_to_def passes_def entry_file_def
  strip_leading_slashes_def matching_item_def readme_item_def suffix_to_prefix Let_def




section \<open>The etag short-circuit\<close>

lemma readTree_after_details:
  assumes "getRepoDetails M r url w = (Inr (repo, branch), w')"
  shows "readTree M r url options w =
     (if truthy (option_etag options) \<and> option_etag options = Some (commit_sha branch)
      then (Inl NotModifiedError, w')
      else bindIO (liftE (parseGitUrl M url)) (\<lambda>parsed.
           bindIO (liftE (credentialsProvider (deps r) url)) (\<lambda>hs.
           doReadTree r (archive_url repo) (commit_sha branch) (filepath parsed) hs options)) w')"
  using assms by (auto simp: readTree_def bindIO_def [of "getRepoDetails M r url"] throwIO_def Let_def)

lemma search_after_details:
  assumes "getRepoDetails M r url w = (Inr (repo, branch), w')"
  shows "search M r url options w =
     (if truthy (search_option_etag options) \<and> search_option_etag options = Some (commit_sha branch)
      then (Inl NotModifiedError, w')
      else bindIO (liftE (parseGitUrl M url)) (\<lambda>parsed.
           bindIO (liftE (credentialsProvider (deps r) url)) (\<lambda>hs.
           bindIO (doSearch M r (trees_url repo) (archive_url repo) (commit_sha branch) (filepath parsed) hs)
             (\<lambda>files. returnIO \<lparr>search_files = files, search_etag = commit_sha branch\<rparr>))) w')"
  using assms by (auto simp: search_def bindIO_def [of "getRepoDetails M r url"] throwIO_def Let_def)

lemma readTree_details_failed:
  assumes "getRepoDetails M r url w = (Inl e, w')"
  shows "readTree M r url options w = (Inl e, w')"
  using assms by (simp add: readTree_def bindIO_def [of "getRepoDetails M r url"])

lemma search_details_failed:
  assumes "getRepoDetails M r url w = (Inl e, w')"
  shows "search M r url options w = (Inl e, w')"
  using assms by (simp add: search_def bindIO_def [of "getRepoDetails M r url"])

text \<open>
  C2. A commit sha is never the empty string. When the ref of the URL resolves to a
  commit and the etag of the options equals the sha of that commit, \<open>readTree\<close> and
  \<open>search\<close> fail with \<open>NotModifiedError\<close> in the world the resolution left: the only
  requests issued are the repository and the branch request, so no archive, tree or blob
  is fetched.
\<close>

theorem not_modified_before_any_content_request:
  assumes "getRepoDetails M r url w = (Inr (repo, branch), w')"
    and "option_etag options = Some (commit_sha branch)"
    and "search_option_etag soptions = Some (commit_sha branch)"
    and "commit_sha branch \<noteq> []"
  shows "readTree M r url options w = (Inl NotModifiedError, w') \<and>
         search M r url soptions w = (Inl NotModifiedError, w') \<and>
         upstream w' = upstream w \<and>
         (\<exists>parsed hs. parseGitUrl M url = Inr parsed \<and> credentialsProvider (deps r) url = Inr hs \<and>
            requests w' = requests w @ [(repo_request r parsed, hs), (branch_request repo parsed, hs)])"
proof -
  from getRepoDetails_success [OF assms(1)] obtain parsed hs where
    "parseGitUrl M url = Inr parsed" "credentialsProvider (deps r) url = Inr hs"
    "w' = w\<lparr>requests := requests w @ [(repo_request r parsed, hs), (branch_request repo parsed, hs)]\<rparr>"
    by blast
  then show ?thesis
    using assms(2-4)
    by (simp add: readTree_after_details [OF assms(1)] search_after_details [OF assms(1)])
qed

lemma example_details:
  "getRepoDetails example_modules example_reader tree_url (example_world sha listing entries) =
     (Inr (example_repo, \<lparr>commit_sha = sha\<rparr>),
      (example_world sha listing entries)\<lparr>requests :=
        [(''https://ghe.test/api/v3/repos/acme/widgets'', example_headers),
         (''https://ghe.test/api/v3/repos/acme/widgets/branches/main'', example_headers)]\<rparr>)"
  by (simp add: example_defs reader_defs)

theorem not_modified_before_any_content_request_witness:
  "readTree example_modules example_reader tree_url (Some \<lparr>opt_etag = Some ''abc123'', opt_filter = None\<rparr>)
     (example_world ''abc123'' \<lparr>truncated = False, tree = []\<rparr> [(''README.md'', ''hi'')]) =
     (Inl NotModifiedError,
      (example_world ''abc123'' \<lparr>truncated = False, tree = []\<rparr> [(''README.md'', ''hi'')])\<lparr>requests :=
        [(''https://ghe.test/api/v3/repos/acme/widgets'', example_headers),
         (''https://ghe.test/api/v3/repos/acme/widgets/branches/main'', example_headers)]\<rparr>) \<and>
   search example_modules example_reader tree_url (Some \<lparr>search_opt_etag = Some ''abc123''\<rparr>)
     (example_world ''abc123'' \<lparr>truncated = False, tree = []\<rparr> [(''README.md'', ''hi'')]) =
     (Inl NotModifiedError,
      (example_world ''abc123'' \<lparr>truncated = False, tree = []\<rparr> [(''README.md'', ''hi'')])\<lparr>requests :=
        [(''https://ghe.test/api/v3/repos/acme/widgets'', example_headers),
         (''https://ghe.test/api/v3/repos/acme/widgets/branches/main'', example_headers)]\<rparr>)"
  using not_modified_before_any_content_request
    [OF example_details [of "''abc123''" "\<lparr>truncated = False, tree = []\<rparr>" "[(''README.md'', ''hi'')]"],
     of "Some \<lparr>opt_etag = Some ''abc123'', opt_filter = None\<rparr>" "Some \<lparr>search_opt_etag = Some ''abc123''\<rparr>"]
  by (simp add: option_etag_def search_option_etag_def)

section \<open>The empty etag\<close>

lemma bindIO_error:
  "fst (bindIO m f w) = Inl e \<longleftrightarrow>
     fst (m w) = Inl e \<or> (\<exists>x w1. m w = (Inr x, w1) \<and> fst (f x w1) = Inl e)"
  by (cases "m w"; cases "fst (m w)") (auto simp: bindIO_def)

lemma fetchResponse_not_NotModified: "fst (fetchResponse u init w) \<noteq> Inl NotModifiedError"
  by (simp add: fetchResponse_def fetch_def Let_def split: sum.splits)

lemma fetchJson_not_NotModified: "fst (fetchJson u init w) \<noteq> Inl NotModifiedError"
  using fetchResponse_not_NotModified [of u init w]
  by (simp add: fetchJson_def bindIO_error returnIO_def)

lemma liftE_fst [simp]: "fst (liftE v w) = v"
  by (simp add: liftE_def)

lemma returnIO_fst [simp]: "fst (returnIO x w) = Inr x"
  by (simp add: returnIO_def)

lemma as_not_NotModified [simp]:
  "as_repo j \<noteq> Inl NotModifiedError" "as_branch j \<noteq> Inl NotModifiedError"
  "as_tree j \<noteq> Inl NotModifiedError" "as_blob j \<noteq> Inl NotModifiedError"
  by (simp_all add: as_repo_def as_branch_def as_tree_def as_blob_def split: json.splits)

lemma getRepoDetails_not_NotModified:
  assumes "\<forall>u. parseGitUrl M u \<noteq> Inl NotModifiedError"
    and "\<forall>u. credentialsProvider (deps r) u \<noteq> Inl NotModifiedError"
  shows "fst (getRepoDetails M r url w) \<noteq> Inl NotModifiedError"
  using assms
  by (simp add: getRepoDetails_def bindIO_error fetchJson_not_NotModified)

lemma doReadTree_not_NotModified:
  assumes "\<forall>a. treeResponseFactory (deps r) a \<noteq> Inl NotModifiedError"
  shows "fst (doReadTree r archiveUrl sha subpath init options w) \<noteq> Inl NotModifiedError"
  using assms
  by (simp add: doReadTree_def bindIO_error fetchResponse_not_NotModified)

lemma doSearch_not_NotModified:
  assumes "\<forall>a. treeResponseFactory (deps r) a \<noteq> Inl NotModifiedError"
  shows "fst (doSearch M r treesUrl archiveUrl sha query init w) \<noteq> Inl NotModifiedError"
  using doReadTree_not_NotModified [OF assms]
  by (simp add: doSearch_def bindIO_error fetchJson_not_NotModified Let_def)

lemma readTree_NotModified_iff:
  assumes "\<forall>u. parseGitUrl M u \<noteq> Inl NotModifiedError"
    and "\<forall>u. credentialsProvider (deps r) u \<noteq> Inl NotModifiedError"
    and "\<forall>a. treeResponseFactory (deps r) a \<noteq> Inl NotModifiedError"
  shows "fst (readTree M r url options w) = Inl NotModifiedError \<longleftrightarrow>
     (\<exists>repo branch w'. getRepoDetails M r url w = (Inr (repo, branch), w') \<and>
        option_etag options = Some (commit_sha branch) \<and> commit_sha branch \<noteq> [])"
proof (cases "getRepoDetails M r url w")
  case (Pair res w')
  show ?thesis
  proof (cases res)
    case (Inl err)
    with Pair getRepoDetails_not_NotModified [OF assms(1,2), of url w] show ?thesis
      by (simp add: readTree_details_failed)
  next
    case (Inr rb)
    obtain repo branch where rb: "rb = (repo, branch)"
      by (cases rb)
    have g: "getRepoDetails M r url w = (Inr (repo, branch), w')"
      using Pair Inr rb by simp
    show ?thesis
      using assms(1,2) doReadTree_not_NotModified [OF assms(3)]
      by (auto simp: readTree_after_details [OF g] g bindIO_error)
  qed
qed

lemma search_NotModified_iff:
  assumes "\<forall>u. parseGitUrl M u \<noteq> Inl NotModifiedError"
    and "\<forall>u. credentialsProvider (deps r) u \<noteq> Inl NotModifiedError"
    and "\<forall>a. treeResponseFactory (deps r) a \<noteq> Inl NotModifiedError"
  shows "fst (search M r url options w) = Inl NotModifiedError \<longleftrightarrow>
     (\<exists>repo branch w'. getRepoDetails M r url w = (Inr (repo, branch), w') \<and>
        search_option_etag options = Some (commit_sha branch) \<and> commit_sha branch \<noteq> [])"
proof (cases "getRepoDetails M r url w")
  case (Pair res w')
  show ?thesis
  proof (cases res)
    case (Inl err)
    with Pair getRepoDetails_not_NotModified [OF assms(1,2), of url w] show ?thesis
      by (simp add: search_details_failed)
  next
    case (Inr rb)
    obtain repo branch where rb: "rb = (repo, branch)"
      by (cases rb)
    have g: "getRepoDetails M r url w = (Inr (repo, branch), w')"
      using Pair Inr rb by simp
    show ?thesis
      using assms(1,2) doSearch_not_NotModified [OF assms(3)]
      by (auto simp: search_after_details [OF g] g bindIO_error)
  qed
qed

lemma empty_etag_calls_equal:
  "readTree M r url (Some \<lparr>opt_etag = Some [], opt_filter = f\<rparr>) w =
     readTree M r url (Some \<lparr>opt_etag = None, opt_filter = f\<rparr>) w \<and>
   readTree M r url (Some \<lparr>opt_etag = Some [], opt_filter = None\<rparr>) w = readTree M r url None w \<and>
   search M r url (Some \<lparr>search_opt_etag = Some []\<rparr>) w = search M r url None w \<and>
   search M r url (Some \<lparr>search_opt_etag = None\<rparr>) w = search M r url None w \<and>
   (readTree M r url (Some \<lparr>opt_etag = Some e, opt_filter = f\<rparr>) w =
      readTree M r url (Some \<lparr>opt_etag = None, opt_filter = f\<rparr>) w \<or>
    e \<noteq> [] \<and> (\<exists>repo branch w'. getRepoDetails M r url w = (Inr (repo, branch), w') \<and> commit_sha branch = e)) \<and>
   (search M r url (Some \<lparr>search_opt_etag = Some e\<rparr>) w = search M r url None w \<or>
    e \<noteq> [] \<and> (\<exists>repo branch w'. getRepoDetails M r url w = (Inr (repo, branch), w') \<and> commit_sha branch = e))"
proof -
  have a: "readTree M r url (Some \<lparr>opt_etag = Some [], opt_filter = f\<rparr>) w =
     readTree M r url (Some \<lparr>opt_etag = None, opt_filter = f\<rparr>) w" for f
    by (simp add: readTree_def doReadTree_def option_etag_def option_filter_def)
  have b: "readTree M r url (Some \<lparr>opt_etag = None, opt_filter = None\<rparr>) w = readTree M r url None w"
    by (simp add: readTree_def doReadTree_def option_etag_def option_filter_def)
  have c: "search M r url (Some \<lparr>search_opt_etag = Some []\<rparr>) w = search M r url None w"
    by (simp add: search_def search_option_etag_def)
  have d: "search M r url (Some \<lparr>search_opt_etag = None\<rparr>) w = search M r url None w"
    by (simp add: search_def search_option_etag_def)
  have e: "readTree M r url (Some \<lparr>opt_etag = Some e, opt_filter = f\<rparr>) w =
      readTree M r url (Some \<lparr>opt_etag = None, opt_filter = f\<rparr>) w \<or>
    e \<noteq> [] \<and> (\<exists>repo branch w'. getRepoDetails M r url w = (Inr (repo, branch), w') \<and> commit_sha branch = e)"
  proof (cases "getRepoDetails M r url w")
    case (Pair res w')
    show ?thesis
    proof (cases res)
      case (Inl err)
      with Pair show ?thesis
        by (simp add: readTree_details_failed)
    next
      case (Inr rb)
      obtain repo branch where rb: "rb = (repo, branch)"
        by (cases rb)
      have g: "getRepoDetails M r url w = (Inr (repo, branch), w')"
        using Pair Inr rb by simp
      show ?thesis
      proof (cases "e \<noteq> [] \<and> commit_sha branch = e")
        case True
        with g show ?thesis by blast
      next
        case False
        then show ?thesis
          by (auto simp: readTree_after_details [OF g] doReadTree_def option_etag_def option_filter_def)
      qed
    qed
  qed
  have f: "search M r url (Some \<lparr>search_opt_etag = Some e\<rparr>) w = search M r url None w \<or>
    e \<noteq> [] \<and> (\<exists>repo branch w'. getRepoDetails M r url w = (Inr (repo, branch), w') \<and> commit_sha branch = e)"
  proof (cases "getRepoDetails M r url w")
    case (Pair res w')
    show ?thesis
    proof (cases res)
      case (Inl err)
      with Pair show ?thesis
        by (simp add: search_details_failed)
    next
      case (Inr rb)
      obtain repo branch where rb: "rb = (repo, branch)"
        by (cases rb)
      have g: "getRepoDetails M r url w = (Inr (repo, branch), w')"
        using Pair Inr rb by simp
      show ?thesis
      proof (cases "e \<noteq> [] \<and> commit_sha branch = e")
        case True
        with g show ?thesis by blast
      next
        case False
        then show ?thesis
          by (auto simp: search_after_details [OF g] search_option_etag_def)
      qed
    qed
  qed
  from a [of f] a [of None] b c d e f show ?thesis
    by simp
qed

text \<open>
  C9. An empty etag is treated exactly like an absent one, by \<open>readTree\<close> and by \<open>search\<close>:
  the calls are equal, result and requests. The reader's collaborators (the URL parser,
  the credentials provider, the tree response factory) have no \<open>NotModifiedError\<close> of
  their own to raise; then \<open>readTree\<close> and \<open>search\<close> fail with \<open>NotModifiedError\<close> exactly
  when the ref resolves to a commit and the etag supplied is a non-empty string equal to
  its sha. So a call with the empty etag, like a call without etag, never fails with
  \<open>NotModifiedError\<close>.
\<close>

theorem empty_etag_is_absent_etag:
  assumes "\<forall>u. parseGitUrl M u \<noteq> Inl NotModifiedError"
    and "\<forall>u. credentialsProvider (deps r) u \<noteq> Inl NotModifiedError"
    and "\<forall>a. treeResponseFactory (deps r) a \<noteq> Inl NotModifiedError"
  shows "readTree M r url (Some \<lparr>opt_etag = Some [], opt_filter = f\<rparr>) w =
           readTree M r url (Some \<lparr>opt_etag = None, opt_filter = f\<rparr>) w \<and>
         readTree M r url (Some \<lparr>opt_etag = Some [], opt_filter = None\<rparr>) w = readTree M r url None w \<and>
         search M r url (Some \<lparr>search_opt_etag = Some []\<rparr>) w = search M r url None w \<and>
         fst (readTree M r url (Some \<lparr>opt_etag = Some [], opt_filter = f\<rparr>) w) \<noteq> Inl NotModifiedError \<and>
         fst (readTree M r url (Some \<lparr>opt_etag = None, opt_filter = f\<rparr>) w) \<noteq> Inl NotModifiedError \<and>
         fst (readTree M r url None w) \<noteq> Inl NotModifiedError \<and>
         fst (search M r url (Some \<lparr>search_opt_etag = Some []\<rparr>) w) \<noteq> Inl NotModifiedError \<and>
         fst (search M r url None w) \<noteq> Inl NotModifiedError \<and>
         (fst (readTree M r url options w) = Inl NotModifiedError \<longleftrightarrow>
            (\<exists>repo branch w'. getRepoDetails M r url w = (Inr (repo, branch), w') \<and>
               option_etag options = Some (commit_sha branch) \<and> commit_sha branch \<noteq> [])) \<and>
         (fst (search M r url soptions w) = Inl NotModifiedError \<longleftrightarrow>
            (\<exists>repo branch w'. getRepoDetails M r url w = (Inr (repo, branch), w') \<and>
               search_option_etag soptions = Some (commit_sha branch) \<and> commit_sha branch \<noteq> []))"
proof -
  note eq = empty_etag_calls_equal [of M r url _ w]
  note rt = readTree_NotModified_iff [OF assms, of url _ w]
  note se = search_NotModified_iff [OF assms, of url _ w]
  have a: "fst (readTree M r url (Some \<lparr>opt_etag = Some [], opt_filter = f\<rparr>) w) \<noteq> Inl NotModifiedError"
    by (auto simp: rt option_etag_def)
  have b: "fst (readTree M r url (Some \<lparr>opt_etag = None, opt_filter = f\<rparr>) w) \<noteq> Inl NotModifiedError"
    by (simp add: rt option_etag_def)
  have c: "fst (readTree M r url None w) \<noteq> Inl NotModifiedError"
    by (simp add: rt option_etag_def)
  have d: "fst (search M r url (Some \<lparr>search_opt_etag = Some []\<rparr>) w) \<noteq> Inl NotModifiedError"
    by (auto simp: se search_option_etag_def)
  have e: "fst (search M r url None w) \<noteq> Inl NotModifiedError"
    by (simp add: se search_option_etag_def)
  from eq [of f] a b c d e rt [of options] se [of soptions] show ?thesis
    by blast
qed

lemma example_collaborators:
  "\<forall>u. parseGitUrl example_modules u \<noteq> Inl NotModifiedError"
  "\<forall>u. credentialsProvider (deps example_reader) u \<noteq> Inl NotModifiedError"
  "\<forall>a. treeResponseFactory (deps example_reader) a \<noteq> Inl NotModifiedError"
  by (simp_all add: example_modules_def example_reader_def fromTarArchive_def)

theorem empty_etag_is_absent_etag_witness:
  "fst (readTree example_modules example_reader tree_url (Some \<lparr>opt_etag = Some [], opt_filter = None\<rparr>)
          (example_world ''abc123'' \<lparr>truncated = False, tree = []\<rparr> [(''README.md'', ''hi'')])) \<noteq>
     Inl NotModifiedError \<and>
   fst (search example_modules example_reader tree_url (Some \<lparr>search_opt_etag = Some []\<rparr>)
          (example_world ''abc123'' \<lparr>truncated = False, tree = []\<rparr> [(''README.md'', ''hi'')])) \<noteq>
     Inl NotModifiedError \<and>
   fst (readTree example_modules example_reader tree_url (Some \<lparr>opt_etag = Some ''abc123'', opt_filter = None\<rparr>)
          (example_world ''abc123'' \<lparr>truncated = False, tree = []\<rparr> [(''README.md'', ''hi'')])) =
     Inl NotModifiedError"
proof -
  let ?w = "example_world ''abc123'' \<lparr>truncated = False, tree = []\<rparr> [(''README.md'', ''hi'')]"
  note th = empty_etag_is_absent_etag [OF example_collaborators, of tree_url None ?w
      "Some \<lparr>opt_etag = Some ''abc123'', opt_filter = None\<rparr>" None]
  have "\<exists>repo branch w'. getRepoDetails example_modules example_reader tree_url ?w = (Inr (repo, branch), w') \<and>
      option_etag (Some \<lparr>opt_etag = Some ''abc123'', opt_filter = None\<rparr>) = Some (commit_sha branch) \<and>
      commit_sha branch \<noteq> []"
    by (simp add: example_details option_etag_def)
  with th show ?thesis
    by blast
qed

section \<open>The etag round trip\<close>



lemma search_etag:
  assumes "getRepoDetails M r url w = (Inr (repo, branch), w0)"
    and "search M r url options w = (Inr s, w1)"
  shows "search_etag s = commit_sha branch"
proof -
  from assms(2) have
    "bindIO (liftE (parseGitUrl M url)) (\<lambda>parsed.
       bindIO (liftE (credentialsProvider (deps r) url)) (\<lambda>hs.
       bindIO (doSearch M r (trees_url repo) (archive_url repo) (commit_sha branch) (filepath parsed) hs)
         (\<lambda>files. returnIO \<lparr>search_files = files, search_etag = commit_sha branch\<rparr>))) w0 = (Inr s, w1)"
    by (simp add: search_after_details [OF assms(1)] split: if_splits)
  then show ?thesis
    by (elim bindIO_InrE) auto
qed





section \<open>Search over the direct listing\<close>

lemma doSearch_direct:
  assumes "upstream w (tree_request treesUrl sha) init = Inr resp"
    and "ok resp"
    and "json_of resp = TreeJson t"
    and "\<not> truncated t"
  shows "doSearch M r treesUrl archiveUrl sha query init w =
     (Inr (map (\<lambda>item. \<lparr>path = the (item_path item),
                         content = blob_accessor M (the (item_url item)) init\<rparr>)
             (filter (matching_item (minimatch M (strip_leading_slashes query))) (tree t))),
      w\<lparr>requests := requests w @ [(tree_request treesUrl sha, init)]\<rparr>)"
  using assms fetchJson_ok [OF assms(1,2)]
  by (simp add: doSearch_def tree_request_def bindIO_def as_tree_def liftE_def returnIO_def Let_def)

lemma blob_accessor_world:
  "snd (blob_accessor M u init v) = v\<lparr>requests := requests v @ [(u, init)]\<rparr>"
  using fetchJson_world [of u init v]
  by (cases "fetchJson u init v")
     (auto simp: blob_accessor_def bindIO_def liftE_def returnIO_def split: sum.splits)

lemma blob_accessor_result:
  "fst (blob_accessor M u init v) =
     (case upstream v u init of
        Inl e \<Rightarrow> Inl (FetchFailure e)
      | Inr resp \<Rightarrow>
          if \<not> ok resp then
            (if status resp = 404
             then Inl (NotFoundError (''Request failed for '' @ u @ '', '' @ render_nat (status resp) @ '' '' @ statusText resp))
             else Inl (Error (''Request failed for '' @ u @ '', '' @ render_nat (status resp) @ '' '' @ statusText resp)))
          else (case json_of resp of BlobJson b \<Rightarrow> Inr (base64_decode M (blob_content b)) | _ \<Rightarrow> Inl TypeError))"
  by (simp add: blob_accessor_def fetchJson_def fetchResponse_def fetch_def bindIO_def liftE_def
      returnIO_def as_blob_def Let_def split: sum.splits json.splits)

text \<open>
  C7. A file of the direct-listing path of \<open>doSearch\<close> carries an accessor that fetches the
  blob at the item's URL each time it is invoked: every invocation adds one request for
  that URL and nothing else, so nothing is kept between invocations. Its result depends
  on the upstream's answer to that request only: two invocations that see the same
  answer return the same, a second invocation right after the first returns what the
  first did, and on a blob response the result is the base64-decoded content.
\<close>

theorem content_accessor_repeatable:
  assumes "upstream w (tree_request treesUrl sha) init = Inr resp"
    and "ok resp"
    and "json_of resp = TreeJson t"
    and "\<not> truncated t"
    and "doSearch M r treesUrl archiveUrl sha query init w = (Inr files, w')"
    and "file \<in> set files"
  shows "\<exists>u.
     (\<forall>v. snd (content file v) = v\<lparr>requests := requests v @ [(u, init)]\<rparr>) \<and>
     (\<forall>v v'. upstream v u init = upstream v' u init \<longrightarrow> fst (content file v) = fst (content file v')) \<and>
     (\<forall>v. fst (content file (snd (content file v))) = fst (content file v)) \<and>
     (\<forall>v resp' b. upstream v u init = Inr resp' \<and> ok resp' \<and> json_of resp' = BlobJson b \<longrightarrow>
        fst (content file v) = Inr (base64_decode M (blob_content b)))"
proof -
  from assms(5) doSearch_direct [OF assms(1-4), of M r archiveUrl query]
  have "files = map (\<lambda>item. \<lparr>path = the (item_path item),
                         content = blob_accessor M (the (item_url item)) init\<rparr>)
             (filter (matching_item (minimatch M (strip_leading_slashes query))) (tree t))"
    by simp
  with assms(6) have
    "file \<in> (\<lambda>item. \<lparr>path = the (item_path item),
                        content = blob_accessor M (the (item_url item)) init\<rparr>) `
       set (filter (matching_item (minimatch M (strip_leading_slashes query))) (tree t))"
    by simp
  then obtain item :: GhTreeItem where
    "file = \<lparr>path = the (item_path item), content = blob_accessor M (the (item_url item)) init\<rparr>"
    by (rule imageE)
  then have "content file = blob_accessor M (the (item_url item)) init"
    by simp
  then show ?thesis
    by (intro exI [of _ "the (item_url item)"])
       (auto simp: blob_accessor_world blob_accessor_result)
qed

lemma example_doSearch_direct:
  "doSearch example_modules example_reader (trees_url example_repo) (archive_url example_repo)
      ''abc123'' ''*.md'' example_headers
      (example_world ''abc123'' \<lparr>truncated = False, tree = [readme_item (Some readme_blob_url)]\<rparr> entries) =
   (Inr [\<lparr>path = ''README.md'',
          content = blob_accessor example_modules readme_blob_url example_headers\<rparr>],
    (example_world ''abc123'' \<lparr>truncated = False, tree = [readme_item (Some readme_blob_url)]\<rparr> entries)
      \<lparr>requests := [(''https://ghe.test/api/v3/repos/acme/widgets/git/trees/abc123?recursive=true'',
                      example_headers)]\<rparr>)"
  by (simp add: example_defs reader_defs readme_blob_url_def)

theorem content_accessor_repeatable_witness:
  "fst (content \<lparr>path = ''README.md'',
                 content = blob_accessor example_modules readme_blob_url example_headers\<rparr>
          (example_world ''abc123'' \<lparr>truncated = False, tree = [readme_item (Some readme_blob_url)]\<rparr> [])) =
     Inr ''hi'' \<and>
   (\<exists>u. (\<forall>v. snd (content \<lparr>path = ''README.md'',
                 content = blob_accessor example_modules readme_blob_url example_headers\<rparr> v) =
              v\<lparr>requests := requests v @ [(u, example_headers)]\<rparr>) \<and>
        (\<forall>v. fst (content \<lparr>path = ''README.md'',
                 content = blob_accessor example_modules readme_blob_url example_headers\<rparr>
                 (snd (content \<lparr>path = ''README.md'',
                 content = blob_accessor example_modules readme_blob_url example_headers\<rparr> v))) =
              fst (content \<lparr>path = ''README.md'',
                 content = blob_accessor example_modules readme_blob_url example_headers\<rparr> v)))"
proof -
  let ?w = "example_world ''abc123'' \<lparr>truncated = False, tree = [readme_item (Some readme_blob_url)]\<rparr> []"
  let ?file = "\<lparr>path = ''README.md'', content = blob_accessor example_modules readme_blob_url example_headers\<rparr>"
  let ?resp = "\<lparr>status = 200, statusText = ''OK'', payload = Inr [],
                json_of = TreeJson \<lparr>truncated = False, tree = [readme_item (Some readme_blob_url)]\<rparr>,
                body = []\<rparr>"
  have u: "tree_request (trees_url example_repo) ''abc123'' =
      ''https://ghe.test/api/v3/repos/acme/widgets/git/trees/abc123?recursive=true''"
    by (simp add: tree_request_def example_repo_def replace_def)
  have a: "upstream ?w (tree_request (trees_url example_repo) ''abc123'') example_headers = Inr ?resp"
    unfolding u by (simp add: example_world_def example_upstream_def ok_response_def)
  have b: "ok ?resp" "json_of ?resp = TreeJson \<lparr>truncated = False, tree = [readme_item (Some readme_blob_url)]\<rparr>"
    "\<not> truncated \<lparr>truncated = False, tree = [readme_item (Some readme_blob_url)]\<rparr>"
    by (simp_all add: ok_def)
  have c: "?file \<in> set [?file]"
    by simp
  have d: "fst (content ?file ?w) = Inr ''hi''"
    by (simp add: blob_accessor_result example_world_def example_upstream_def ok_response_def ok_def
        readme_blob_url_def example_modules_def)
  from content_accessor_repeatable [OF a b example_doSearch_direct c] d show ?thesis
    by blast
qed

section \<open>Search through the archive\<close>













end
